theory Spec2Isabelle
  imports Main
begin

section \<open>Python values handled by orderbot-sync.py\<close>

text \<open>
  The program reads JSON documents with \<^verbatim>\<open>response.json()\<close> and handles them as
  Python dicts, lists, strings, numbers, booleans and \<^verbatim>\<open>None\<close>. A dict is an
  association list in insertion order whose first binding of a key is the effective one.
\<close>

datatype json =
    JNull
  | JBool bool
  | JNum int
  | JStr string
  | JArr "json list"
  | JObj "(string \<times> json) list"

text \<open>The exceptions that can arise, as values.\<close>

datatype py_error =
    KeyError string
  | TypeError
  | ValueError
  | HTTPError int
  | ConnectionError
  | JSONDecodeError
  | UnboundLocalError string
  | RecursionError
  | UniqueViolation
  | InFailedSqlTransaction

text \<open>\<^verbatim>\<open>x[k]\<close> for a string key \<^verbatim>\<open>k\<close>: only a dict accepts it.\<close>

fun subscript :: "json \<Rightarrow> string \<Rightarrow> py_error + json" where
  "subscript (JObj kvs) k = (case map_of kvs k of None \<Rightarrow> Inl (KeyError k) | Some v \<Rightarrow> Inr v)"
| "subscript _ k = Inl TypeError"

text \<open>\<^verbatim>\<open>for item in x\<close>: a list gives its elements, a dict its keys, a string its characters.\<close>

fun py_iter :: "json \<Rightarrow> py_error + json list" where
  "py_iter (JArr xs) = Inr xs"
| "py_iter (JObj kvs) = Inr (map (\<lambda>kv. JStr (fst kv)) kvs)"
| "py_iter (JStr s) = Inr (map (\<lambda>c. JStr [c]) s)"
| "py_iter _ = Inl TypeError"

text \<open>Truth value of an object in a condition.\<close>

fun truthy :: "json \<Rightarrow> bool" where
  "truthy JNull = False"
| "truthy (JBool b) = b"
| "truthy (JNum n) = (n \<noteq> 0)"
| "truthy (JStr s) = (s \<noteq> [])"
| "truthy (JArr xs) = (xs \<noteq> [])"
| "truthy (JObj kvs) = (kvs \<noteq> [])"

fun contains :: "string \<Rightarrow> string \<Rightarrow> bool" where
  "contains [] k = (k = [])"
| "contains (c # s) k = (take (length k) (c # s) = k \<or> contains s k)"

text \<open>\<^verbatim>\<open>k in x\<close> for a string \<^verbatim>\<open>k\<close>.\<close>

fun py_in :: "string \<Rightarrow> json \<Rightarrow> py_error + bool" where
  "py_in k (JObj kvs) = Inr (k \<in> set (map fst kvs))"
| "py_in k (JArr xs) = Inr (JStr k \<in> set xs)"
| "py_in k (JStr s) = Inr (contains s k)"
| "py_in k _ = Inl TypeError"

text \<open>
  A value handed to the database driver or returned in a response body: an object as it
  is, or the text \<^verbatim>\<open>json.dumps(x)\<close>, kept symbolic (\<open>Dumps JNull\<close> is the text
  \<^verbatim>\<open>null\<close>, \<open>Val JNull\<close> is \<^verbatim>\<open>None\<close>).
\<close>

datatype pyval = Val json | Dumps json

type_synonym row = "pyval list"

section \<open>The world: collaborators and effects\<close>

record request =
  url :: json
  headers :: "(string \<times> string) list"
  params :: "(string \<times> string) list option"

text \<open>
  What \<^verbatim>\<open>requests.get\<close> does: it raises, or it returns a response with a status code
  and a body (\<open>None\<close> when the body is not JSON).
\<close>

datatype http_result = Raises py_error | Response int "json option"

datatype level = CRITICAL | ERROR | WARNING

datatype fmt_arg = NoArg | ErrArg py_error | IntArg int

text \<open>
  Observable events, oldest first: HTTP requests, calls of the logging functions and
  printed lines (each with its format string and the value formatted into it).
\<close>

datatype event =
    Get request
  | Log level string fmt_arg
  | Print string fmt_arg

text \<open>
  The configuration and the collaborators of a run: the process environment, the clock's
  year, the remote endpoint behind \<^verbatim>\<open>requests.get\<close>, \<^verbatim>\<open>psycopg2.connect\<close>
  (\<open>Some msg\<close> is the text of the exception it raises) and \<^verbatim>\<open>logging.basicConfig\<close>.
\<close>

record env =
  environ :: "string \<Rightarrow> string option"
  now_year :: nat
  requests_get :: "request \<Rightarrow> http_result"
  psycopg2_connect :: "string \<Rightarrow> string option"
  basicConfig :: "string \<Rightarrow> py_error option"

text \<open>
  The state a run acts on: the events so far, the committed rows of the table
  \<^verbatim>\<open>syc_orders\<close>, and the connection with the rows of its open transaction.
\<close>

record world =
  trace :: "event list"
  table :: "row list"
  pending :: "row list"
  aborted :: bool
  connected :: bool

definition emit :: "event \<Rightarrow> world \<Rightarrow> world" where
  "emit e w = w\<lparr>trace := trace w @ [e]\<rparr>"

section \<open>Paginator\<close>

datatype items = Items "json list" | PyFalse

definition mk_request :: "string \<Rightarrow> json \<Rightarrow> (string \<times> string) list option \<Rightarrow> request" where
  "mk_request commerce_creds api_endpoint parameters =
     \<lparr>url = api_endpoint,
      headers = [(''Authorization'', ''Bearer '' @ commerce_creds),
                 (''User-Agent'', ''MembershipBot'')],
      params = parameters\<rparr>"

text \<open>
  \<^verbatim>\<open>squarespace_items\<close>. The first argument is the remaining call depth of the
  interpreter: the function calls itself once per page, and a call beyond the depth raises
  \<^verbatim>\<open>RecursionError\<close>.
\<close>

fun squarespace_items ::
  "nat \<Rightarrow> env \<Rightarrow> json \<Rightarrow> string \<Rightarrow> (string \<times> string) list option \<Rightarrow> world
     \<Rightarrow> (py_error + items) \<times> world" where
  "squarespace_items 0 E api_endpoint json_return parameters w = (Inl RecursionError, w)"
| "squarespace_items (Suc depth) E api_endpoint json_return parameters w =
    (case environ E ''SQUARESPACE_API_KEY'' of
       None \<Rightarrow> (Inl TypeError, w)
     | Some commerce_creds \<Rightarrow>
        (let rq = mk_request commerce_creds api_endpoint parameters;
             w1 = emit (Get rq) w
         in case requests_get E rq of
              Raises e \<Rightarrow> (Inl e, w1)
            | Response status_code body \<Rightarrow>
               if 400 \<le> status_code \<and> status_code < 600 then (Inl (HTTPError status_code), w1)
               else (case body of
                 None \<Rightarrow> (Inl JSONDecodeError, w1)
               | Some json_data \<Rightarrow>
                  if status_code = 200 then
                    (case subscript json_data json_return of
                       Inl e \<Rightarrow> (Inl e, w1)
                     | Inr arr \<Rightarrow>
                    (case py_iter arr of
                       Inl e \<Rightarrow> (Inl e, w1)
                     | Inr item_list \<Rightarrow>
                    (case subscript json_data ''pagination'' of
                       Inl e \<Rightarrow> (Inl e, w1)
                     | Inr pagination \<Rightarrow>
                    (case subscript pagination ''hasNextPage'' of
                       Inl e \<Rightarrow> (Inl e, w1)
                     | Inr hasNextPage \<Rightarrow>
                        if truthy hasNextPage then
                          (case subscript pagination ''nextPageUrl'' of
                             Inl e \<Rightarrow> (Inl e, w1)
                           | Inr nextPageUrl \<Rightarrow>
                              (case squarespace_items depth E nextPageUrl json_return None w1 of
                                 (Inl e, w2) \<Rightarrow> (Inl e, w2)
                               | (Inr (Items rest), w2) \<Rightarrow> (Inr (Items (item_list @ rest)), w2)
                               | (Inr PyFalse, w2) \<Rightarrow> (Inl TypeError, w2)))
                        else (Inr (Items item_list), w1)))))
                  else
                    (Inr PyFalse,
                     emit (Log ERROR
                       ''Return status from response was requests.get was NOT OK: %s''
                       (IntArg status_code)) w1))))"

text \<open>
  \<^verbatim>\<open>date(year, month, day).isoformat()\<close>: \<^verbatim>\<open>date\<close> accepts the years 1 to 9999 (the
  months and days used here are constants in range) and prints \<^verbatim>\<open>YYYY-MM-DD\<close>.
\<close>

definition digit :: "nat \<Rightarrow> char" where
  "digit n = char_of (48 + n mod 10)"

definition zero_pad4 :: "nat \<Rightarrow> string" where
  "zero_pad4 n = [digit (n div 1000), digit (n div 100), digit (n div 10), digit n]"

definition zero_pad2 :: "nat \<Rightarrow> string" where
  "zero_pad2 n = [digit (n div 10), digit n]"

definition date_isoformat :: "nat \<Rightarrow> nat \<Rightarrow> nat \<Rightarrow> py_error + string" where
  "date_isoformat year month day =
     (if 1 \<le> year \<and> year \<le> 9999
      then Inr (zero_pad4 year @ ''-'' @ zero_pad2 month @ ''-'' @ zero_pad2 day)
      else Inl ValueError)"

definition orders_api_endpoint :: string where
  "orders_api_endpoint = ''https://api.squarespace.com/1.0/commerce/orders''"

definition request_parameters :: "string \<Rightarrow> string \<Rightarrow> (string \<times> string) list" where
  "request_parameters year_beginning year_end =
     [(''modifiedAfter'', year_beginning), (''modifiedBefore'', year_end)]"

text \<open>\<^verbatim>\<open>not orders\<close>: \<^verbatim>\<open>False\<close> and the empty list are falsy.\<close>

fun items_truthy :: "items \<Rightarrow> bool" where
  "items_truthy PyFalse = False"
| "items_truthy (Items xs) = (xs \<noteq> [])"

text \<open>
  \<^verbatim>\<open>squarespace_orders_json\<close>. The variable \<^verbatim>\<open>orders\<close> is assigned inside the
  \<^verbatim>\<open>try\<close> block only; after the handler of \<^verbatim>\<open>HTTPError\<close> has logged,
  \<^verbatim>\<open>return orders\<close> reads a variable that was never bound.
\<close>

definition squarespace_orders_json :: "nat \<Rightarrow> env \<Rightarrow> world \<Rightarrow> (py_error + items) \<times> world" where
  "squarespace_orders_json depth E w =
     (case date_isoformat (now_year E) 1 1 of
        Inl e \<Rightarrow> (Inl e, w)
      | Inr d1 \<Rightarrow>
     (case date_isoformat (now_year E) 12 30 of
        Inl e \<Rightarrow> (Inl e, w)
      | Inr d2 \<Rightarrow>
        (let year_beginning = d1 @ ''T00:00:00.0Z'';
             year_end = d2 @ ''T00:00:00.0Z''
         in case squarespace_items depth E (JStr orders_api_endpoint) ''result''
                   (Some (request_parameters year_beginning year_end)) w of
              (Inr orders, w1) \<Rightarrow>
                (Inr orders,
                 if \<not> items_truthy orders
                 then emit (Log WARNING ''No orders since the beginning of the year'' NoArg) w1
                 else w1)
            | (Inl (HTTPError c), w1) \<Rightarrow>
                (Inl (UnboundLocalError ''orders''),
                 emit (Log ERROR ''Failed to get new orders: %s'' (ErrArg (HTTPError c))) w1)
            | (Inl e, w1) \<Rightarrow> (Inl e, w1))))"

section \<open>Persister\<close>

text \<open>An f-string field: \<^verbatim>\<open>None\<close> prints as \<^verbatim>\<open>None\<close>.\<close>

definition fstr :: "string option \<Rightarrow> string" where
  "fstr v = (case v of None \<Rightarrow> ''None'' | Some s \<Rightarrow> s)"

definition db_conn_string :: "env \<Rightarrow> string" where
  "db_conn_string E =
     ''postgresql://'' @ fstr (environ E ''DB_USER'') @ '':'' @ fstr (environ E ''DB_PASS'')
       @ ''@'' @ fstr (environ E ''DB_SERVER'')
       @ ''.us-west-2.retooldb.com/retool?sslmode=require''"

definition get1 :: "json \<Rightarrow> string \<Rightarrow> py_error + pyval" where
  "get1 x k = (case subscript x k of Inl e \<Rightarrow> Inl e | Inr v \<Rightarrow> Inr (Val v))"

definition get2 :: "json \<Rightarrow> string \<Rightarrow> string \<Rightarrow> py_error + pyval" where
  "get2 x k1 k2 = (case subscript x k1 of Inl e \<Rightarrow> Inl e | Inr y \<Rightarrow> get1 y k2)"

definition dumps1 :: "json \<Rightarrow> string \<Rightarrow> py_error + pyval" where
  "dumps1 x k = (case subscript x k of Inl e \<Rightarrow> Inl e | Inr v \<Rightarrow> Inr (Dumps v))"

text \<open>The elements of a tuple are evaluated left to right; the first exception wins.\<close>

fun sequence :: "(py_error + 'a) list \<Rightarrow> py_error + 'a list" where
  "sequence [] = Inr []"
| "sequence (Inl e # cs) = Inl e"
| "sequence (Inr x # cs) = (case sequence cs of Inl e \<Rightarrow> Inl e | Inr xs \<Rightarrow> Inr (x # xs))"

text \<open>
  \<^verbatim>\<open>json.dumps(line_item['variantOptions']) if 'variantOptions' in line_item else None\<close>
\<close>

definition variant_options :: "json \<Rightarrow> py_error + pyval" where
  "variant_options line_item =
     (case py_in ''variantOptions'' line_item of
        Inl e \<Rightarrow> Inl e
      | Inr present \<Rightarrow>
          if present then dumps1 line_item ''variantOptions'' else Inr (Val JNull))"

text \<open>The fields read before \<^verbatim>\<open>variant_options\<close> in the tuple \<^verbatim>\<open>values\<close>, in order.\<close>

definition values_front :: "json \<Rightarrow> json \<Rightarrow> (py_error + pyval) list" where
  "values_front payload line_item =
     [get1 line_item ''id'', get1 payload ''orderNumber'', get1 payload ''createdOn'',
      get1 payload ''modifiedOn'', get1 payload ''channel'', get1 payload ''testmode'',
      get1 payload ''customerEmail'',
      get2 payload ''billingAddress'' ''firstName'', get2 payload ''billingAddress'' ''lastName'',
      get2 payload ''billingAddress'' ''address1'', get2 payload ''billingAddress'' ''address2'',
      get2 payload ''billingAddress'' ''city'', get2 payload ''billingAddress'' ''state'',
      get2 payload ''billingAddress'' ''countryCode'',
      get2 payload ''billingAddress'' ''postalCode'', get2 payload ''billingAddress'' ''phone'',
      get1 payload ''fulfillmentStatus'', get1 line_item ''id'', get1 line_item ''variantId'']"

text \<open>The fields between \<^verbatim>\<open>variant_options\<close> and the customizations.\<close>

definition values_middle :: "json \<Rightarrow> (py_error + pyval) list" where
  "values_middle line_item =
     [get1 line_item ''sku'', get1 line_item ''productId'', get1 line_item ''productName'',
      get1 line_item ''quantity'', get2 line_item ''unitPricePaid'' ''value'',
      get1 line_item ''imageUrl'', get1 line_item ''lineItemType'']"

text \<open>The fields after the customizations.\<close>

definition values_back :: "json \<Rightarrow> (py_error + pyval) list" where
  "values_back payload =
     [get2 payload ''subtotal'' ''value'', get2 payload ''shippingTotal'' ''value'',
      get2 payload ''discountTotal'' ''value'', get2 payload ''taxTotal'' ''value'',
      get2 payload ''refundedTotal'' ''value'', get2 payload ''grandTotal'' ''value'',
      get1 payload ''channelName'', get1 payload ''externalOrderReference'',
      get1 payload ''fulfilledOn'', get1 payload ''priceTaxInterpretation'']"

text \<open>The tuple \<^verbatim>\<open>values\<close> of one line item: 38 columns.\<close>

definition values_of :: "json \<Rightarrow> json \<Rightarrow> pyval \<Rightarrow> py_error + row" where
  "values_of payload line_item vo =
     sequence (values_front payload line_item @ [Inr vo] @ values_middle line_item
               @ [dumps1 line_item ''customizations''] @ values_back payload)"

text \<open>The column \<^verbatim>\<open>id\<close>, the uniqueness key, is the first of a row.\<close>

definition row_id :: "row \<Rightarrow> pyval" where
  "row_id r = (case r of [] \<Rightarrow> Val JNull | x # _ \<Rightarrow> x)"

text \<open>
  Modelled from the spec: the table \<^verbatim>\<open>syc_orders\<close> and its engine are not part of the
  sources. The spec gives one row per LineItem, with the LineItem id as the uniqueness key
  enforced by the store; only that key is checked here (the column types and the other
  constraints of the table are unknown). The driver is psycopg2 on PostgreSQL, which the
  handler for \<^verbatim>\<open>InFailedSqlTransaction\<close> in \<^verbatim>\<open>insert_items\<close> relies on: a failed
  statement leaves the open transaction aborted, and every later statement of that
  transaction raises \<^verbatim>\<open>InFailedSqlTransaction\<close>. This is
  \<^verbatim>\<open>cursor.execute(query, values)\<close>.
\<close>

definition execute :: "row \<Rightarrow> world \<Rightarrow> (py_error + unit) \<times> world" where
  "execute r w =
     (if aborted w then (Inl InFailedSqlTransaction, w)
      else if row_id r \<in> set (map row_id (table w @ pending w))
           then (Inl UniqueViolation, w\<lparr>aborted := True\<rparr>)
           else (Inr (), w\<lparr>pending := pending w @ [r]\<rparr>))"

text \<open>
  Modelled from the spec: \<^verbatim>\<open>conn.commit()\<close> on the same store. The commit of an aborted
  transaction rolls it back; otherwise the rows of the transaction become part of the table.
\<close>

definition commit :: "world \<Rightarrow> world" where
  "commit w =
     (if aborted w then w\<lparr>pending := [], aborted := False\<rparr>
      else w\<lparr>table := table w @ pending w, pending := []\<rparr>)"

text \<open>
  The row of one line item: \<^verbatim>\<open>variant_options\<close> is computed first, then the tuple.
\<close>

definition line_item_row :: "json \<Rightarrow> json \<Rightarrow> py_error + row" where
  "line_item_row payload line_item =
     (case variant_options line_item of
        Inl e \<Rightarrow> Inl e
      | Inr vo \<Rightarrow> values_of payload line_item vo)"

text \<open>
  The inner loop over the line items of one order. Only \<^verbatim>\<open>UniqueViolation\<close> and
  \<^verbatim>\<open>InFailedSqlTransaction\<close> are caught; any other exception leaves the function.
\<close>

fun insert_line_items :: "json \<Rightarrow> json list \<Rightarrow> world \<Rightarrow> (py_error + unit) \<times> world" where
  "insert_line_items payload [] w = (Inr (), w)"
| "insert_line_items payload (line_item # rest) w =
     (case line_item_row payload line_item of
        Inl e \<Rightarrow> (Inl e, w)
      | Inr r \<Rightarrow>
         (case execute r w of
            (Inr u, w1) \<Rightarrow> insert_line_items payload rest w1
          | (Inl UniqueViolation, w1) \<Rightarrow>
              insert_line_items payload rest
                (emit (Print ''Caught duplicate lineitem, skipping: %s'' (ErrArg UniqueViolation)) w1)
          | (Inl InFailedSqlTransaction, w1) \<Rightarrow>
              insert_line_items payload rest
                (emit (Print ''Some error in the transaction: %s'' (ErrArg InFailedSqlTransaction)) w1)
          | (Inl e, w1) \<Rightarrow> (Inl e, w1)))"

text \<open>The outer loop over the orders, with the commit after each order.\<close>

fun insert_payloads :: "json list \<Rightarrow> world \<Rightarrow> (py_error + unit) \<times> world" where
  "insert_payloads [] w = (Inr (), w)"
| "insert_payloads (payload # rest) w =
     (case subscript payload ''lineItems'' of
        Inl e \<Rightarrow> (Inl e, w)
      | Inr lineItems \<Rightarrow>
     (case py_iter lineItems of
        Inl e \<Rightarrow> (Inl e, w)
      | Inr line_items \<Rightarrow>
         (case insert_line_items payload line_items w of
            (Inl e, w1) \<Rightarrow> (Inl e, w1)
          | (Inr u, w1) \<Rightarrow> insert_payloads rest (commit w1))))"

text \<open>The rows \<^verbatim>\<open>insert_items\<close> builds for one order, line item by line item.\<close>

definition order_rows :: "json \<Rightarrow> py_error + row list" where
  "order_rows payload =
     (case subscript payload ''lineItems'' of
        Inl e \<Rightarrow> Inl e
      | Inr lineItems \<Rightarrow>
     (case py_iter lineItems of
        Inl e \<Rightarrow> Inl e
      | Inr line_items \<Rightarrow> sequence (map (line_item_row payload) line_items)))"

text \<open>What a function of the program returns: an integer or a status dict.\<close>

datatype ret = RetInt int | RetStatus int pyval

text \<open>
  \<^verbatim>\<open>insert_items\<close>. \<^verbatim>\<open>items\<close> is whatever \<^verbatim>\<open>squarespace_orders_json\<close> returned;
  iterating over \<^verbatim>\<open>False\<close> raises \<^verbatim>\<open>TypeError\<close>.
\<close>

definition insert_items :: "env \<Rightarrow> items \<Rightarrow> world \<Rightarrow> (py_error + ret) \<times> world" where
  "insert_items E its w =
     (case psycopg2_connect E (db_conn_string E) of
        Some msg \<Rightarrow>
          (Inr (RetStatus 500 (Dumps (JStr (''Database connection error: '' @ msg)))), w)
      | None \<Rightarrow>
         (let w0 = w\<lparr>pending := [], aborted := False, connected := True\<rparr>
          in case its of
               PyFalse \<Rightarrow> (Inl TypeError, w0)
             | Items payloads \<Rightarrow>
                (case insert_payloads payloads w0 of
                   (Inl e, w1) \<Rightarrow> (Inl e, w1)
                 | (Inr u, w1) \<Rightarrow>
                     (Inr (RetInt 0),
                      emit (Print ''Successful load out'' NoArg) (w1\<lparr>connected := False\<rparr>)))))"

section \<open>Entry points\<close>

text \<open>\<^verbatim>\<open>str.upper\<close> on ASCII letters.\<close>

definition upper_char :: "char \<Rightarrow> char" where
  "upper_char c =
     (let n = (of_char c :: nat) in if 97 \<le> n \<and> n \<le> 122 then char_of (n - 32) else c)"

definition upper :: "string \<Rightarrow> string" where
  "upper s = map upper_char s"

text \<open>\<^verbatim>\<open>main\<close>: the value of \<^verbatim>\<open>insert_items(orders)\<close> is not used.\<close>

definition main :: "nat \<Rightarrow> env \<Rightarrow> world \<Rightarrow> (py_error + ret) \<times> world" where
  "main depth E w =
     (case environ E ''SQUARESPACE_API_KEY'' of
        None \<Rightarrow>
          (Inr (RetInt 1),
           emit (Log CRITICAL ''Failed to pass SQUARESPACE_API_KEY. Exiting'' NoArg) w)
      | Some key \<Rightarrow>
         (let LOGLEVEL = upper (case environ E ''LOGLEVEL'' of None \<Rightarrow> ''INFO'' | Some l \<Rightarrow> l)
          in case basicConfig E LOGLEVEL of
               Some e \<Rightarrow> (Inl e, w)
             | None \<Rightarrow>
                (case squarespace_orders_json depth E w of
                   (Inl e, w1) \<Rightarrow> (Inl e, w1)
                 | (Inr orders, w1) \<Rightarrow>
                    (case insert_items E orders w1 of
                       (Inl e, w2) \<Rightarrow> (Inl e, w2)
                     | (Inr r, w2) \<Rightarrow>
                         (Inr (RetStatus 200 (Dumps (JStr ''Data inserted successfully!''))), w2)))))"

definition handler :: "json \<Rightarrow> json \<Rightarrow> nat \<Rightarrow> env \<Rightarrow> world \<Rightarrow> (py_error + ret) \<times> world" where
  "handler event ctx depth E w = main depth E w"

section \<open>Specification-side notions and example configurations\<close>

text \<open>
  The window of the spec: January 1 and December 30 of the year \<open>y\<close>, each at midnight UTC,
  as the query parameters \<^verbatim>\<open>modifiedAfter\<close> and \<^verbatim>\<open>modifiedBefore\<close>.
\<close>

definition year_window :: "nat \<Rightarrow> (string \<times> string) list" where
  "year_window y =
     [(''modifiedAfter'', zero_pad4 y @ ''-01-01T00:00:00.0Z''),
      (''modifiedBefore'', zero_pad4 y @ ''-12-30T00:00:00.0Z'')]"

text \<open>No request among the events carries query parameters.\<close>

definition followups :: "event list \<Rightarrow> bool" where
  "followups evs = list_all (\<lambda>e. case e of Get rq \<Rightarrow> params rq = None | _ \<Rightarrow> True) evs"

text \<open>
  Example configurations for concrete runs: the year is 2024, \<^verbatim>\<open>logging.basicConfig\<close>
  accepts the level names of the logging module, and the variables, the endpoint and the
  outcome of the connection attempt are given.
\<close>

definition level_names :: "string list" where
  "level_names =
     [''CRITICAL'', ''FATAL'', ''ERROR'', ''WARN'', ''WARNING'', ''INFO'', ''DEBUG'', ''NOTSET'']"

definition example_env ::
  "(string \<times> string) list \<Rightarrow> (request \<Rightarrow> http_result) \<Rightarrow> string option \<Rightarrow> env" where
  "example_env vars server db_failure =
     \<lparr>environ = map_of vars, now_year = 2024, requests_get = server,
      psycopg2_connect = (\<lambda>s. db_failure),
      basicConfig = (\<lambda>l. if l \<in> set level_names then None else Some ValueError)\<rparr>"

definition empty_world :: world where
  "empty_world = \<lparr>trace = [], table = [], pending = [], aborted = False, connected = False\<rparr>"

definition page :: "json list \<Rightarrow> string option \<Rightarrow> json" where
  "page recs nxt =
     JObj [(''result'', JArr recs),
           (''pagination'',
              (case nxt of None \<Rightarrow> JObj [(''hasNextPage'', JBool False)]
               | Some u \<Rightarrow> JObj [(''hasNextPage'', JBool True), (''nextPageUrl'', JStr u)]))]"

definition api_key :: "(string \<times> string) list" where
  "api_key = [(''SQUARESPACE_API_KEY'', ''secret'')]"

definition env_no_key :: env where
  "env_no_key = example_env [] (\<lambda>rq. Response 200 (Some (page [] None))) None"

definition env_db_down :: env where
  "env_db_down =
     example_env api_key (\<lambda>rq. Response 200 (Some (page [] None))) (Some ''connection refused'')"

definition env_http_500 :: env where
  "env_http_500 = example_env api_key (\<lambda>rq. Response 500 None) None"

definition first_request :: request where
  "first_request =
     \<lparr>url = JStr ''https://api.squarespace.com/1.0/commerce/orders'',
      headers = [(''Authorization'', ''Bearer secret''), (''User-Agent'', ''MembershipBot'')],
      params = Some [(''modifiedAfter'', ''2024-01-01T00:00:00.0Z''),
                     (''modifiedBefore'', ''2024-12-30T00:00:00.0Z'')]\<rparr>"

text \<open>
  A simulated endpoint serving the pages \<open>pages\<close>, one list of records per page, starting
  at the request for \<open>u\<close> with parameters \<open>p\<close>: every page answers with status 200 and a
  body holding its records under the result key; the flag \<^verbatim>\<open>hasNextPage\<close> is true on every
  page but the last, where it is false, and \<^verbatim>\<open>nextPageUrl\<close> leads to the next page.
\<close>

fun page_chain ::
  "env \<Rightarrow> string \<Rightarrow> string \<Rightarrow> json \<Rightarrow> (string \<times> string) list option \<Rightarrow> json list list \<Rightarrow> bool" where
  "page_chain E c key u p [] = False"
| "page_chain E c key u p (recs # later) =
    (case requests_get E (mk_request c u p) of
       Response status (Some body) \<Rightarrow>
         status = 200 \<and> subscript body key = Inr (JArr recs) \<and>
         (case subscript body ''pagination'' of
            Inr pg \<Rightarrow>
              (case subscript pg ''hasNextPage'' of
                 Inr (JBool has_next) \<Rightarrow>
                   (if later = [] then \<not> has_next
                    else has_next \<and>
                      (case subscript pg ''nextPageUrl'' of
                         Inr nxt \<Rightarrow> page_chain E c key nxt None later
                       | Inl e \<Rightarrow> False))
               | _ \<Rightarrow> False)
          | Inl e \<Rightarrow> False)
     | _ \<Rightarrow> False)"

definition two_pages_server :: "request \<Rightarrow> http_result" where
  "two_pages_server rq =
     (if url rq = JStr orders_api_endpoint
      then Response 200 (Some (page [JNum 1, JNum 2] (Some ''https://api.squarespace.com/next'')))
      else Response 200 (Some (page [JNum 3, JNum 4] None)))"

definition env_two_pages :: env where
  "env_two_pages = example_env api_key two_pages_server None"

text \<open>The two lines \<^verbatim>\<open>insert_items\<close> prints when it skips a line item.\<close>

definition is_skip :: "event \<Rightarrow> bool" where
  "is_skip e =
     (e = Print ''Caught duplicate lineitem, skipping: %s'' (ErrArg UniqueViolation)
      \<or> e = Print ''Some error in the transaction: %s'' (ErrArg InFailedSqlTransaction))"

text \<open>
  What is printed for \<open>n\<close> line items in a row that are already stored: the first insert
  of a transaction still open raises \<^verbatim>\<open>UniqueViolation\<close>, every later one
  \<^verbatim>\<open>InFailedSqlTransaction\<close> (\<open>a\<close> tells whether the transaction is already aborted).
\<close>

fun skip_events :: "bool \<Rightarrow> nat \<Rightarrow> event list" where
  "skip_events a 0 = []"
| "skip_events a (Suc n) =
     (if a then Print ''Some error in the transaction: %s'' (ErrArg InFailedSqlTransaction)
      else Print ''Caught duplicate lineitem, skipping: %s'' (ErrArg UniqueViolation))
     # skip_events True n"

text \<open>The exceptions a failed \<^verbatim>\<open>x[k]\<close> raises.\<close>

definition key_or_type_error :: "py_error \<Rightarrow> bool" where
  "key_or_type_error e = (case e of KeyError k \<Rightarrow> True | TypeError \<Rightarrow> True | _ \<Rightarrow> False)"

definition lookup_outcome :: "py_error + 'a \<Rightarrow> bool" where
  "lookup_outcome c = (case c of Inl e \<Rightarrow> key_or_type_error e | Inr v \<Rightarrow> True)"

text \<open>An example order, its line items and the row of a line item, for concrete runs.\<close>

definition example_fields :: "string \<Rightarrow> (string \<times> json) list" where
  "example_fields i =
     [(''id'', JStr i), (''variantId'', JStr ''v-1''), (''sku'', JStr ''ABC''),
      (''productId'', JStr ''p-1''), (''productName'', JStr ''Burgee''), (''quantity'', JNum 2),
      (''unitPricePaid'', JObj [(''currency'', JStr ''USD''), (''value'', JStr ''19.99'')]),
      (''imageUrl'', JStr ''https://example.org/burgee.png''),
      (''lineItemType'', JStr ''PHYSICAL_PRODUCT'')]"

definition example_line_item :: "string \<Rightarrow> json" where
  "example_line_item i = JObj (example_fields i @ [(''customizations'', JNull)])"

definition bare_line_item :: "string \<Rightarrow> json" where
  "bare_line_item i = JObj (example_fields i)"

definition money :: "string \<Rightarrow> json" where
  "money v = JObj [(''currency'', JStr ''USD''), (''value'', JStr v)]"

definition example_order :: "json list \<Rightarrow> json" where
  "example_order lis =
     JObj [(''orderNumber'', JStr ''1001''), (''createdOn'', JStr ''2024-03-01T10:00:00.0Z''),
           (''modifiedOn'', JStr ''2024-03-01T10:05:00.0Z''), (''channel'', JStr ''web''),
           (''testmode'', JBool False), (''customerEmail'', JStr ''member@example.org''),
           (''billingAddress'',
              JObj [(''firstName'', JStr ''Ada''), (''lastName'', JStr ''Byron''),
                    (''address1'', JStr ''1 Harbour Rd''), (''address2'', JNull),
                    (''city'', JStr ''Sherborn''), (''state'', JStr ''MA''),
                    (''countryCode'', JStr ''US''), (''postalCode'', JStr ''01770''),
                    (''phone'', JStr ''555-0100'')]),
           (''fulfillmentStatus'', JStr ''PENDING''), (''lineItems'', JArr lis),
           (''subtotal'', money ''39.98''), (''shippingTotal'', money ''0.00''),
           (''discountTotal'', money ''0.00''), (''taxTotal'', money ''0.00''),
           (''refundedTotal'', money ''0.00''), (''grandTotal'', money ''39.98''),
           (''channelName'', JStr ''Squarespace''), (''externalOrderReference'', JNull),
           (''fulfilledOn'', JNull), (''priceTaxInterpretation'', JStr ''EXCLUSIVE'')]"

definition example_row :: "string \<Rightarrow> row" where
  "example_row i =
     [Val (JStr i), Val (JStr ''1001''), Val (JStr ''2024-03-01T10:00:00.0Z''),
      Val (JStr ''2024-03-01T10:05:00.0Z''), Val (JStr ''web''), Val (JBool False),
      Val (JStr ''member@example.org''), Val (JStr ''Ada''), Val (JStr ''Byron''),
      Val (JStr ''1 Harbour Rd''), Val JNull, Val (JStr ''Sherborn''), Val (JStr ''MA''),
      Val (JStr ''US''), Val (JStr ''01770''), Val (JStr ''555-0100''), Val (JStr ''PENDING''),
      Val (JStr i), Val (JStr ''v-1''), Val JNull, Val (JStr ''ABC''), Val (JStr ''p-1''),
      Val (JStr ''Burgee''), Val (JNum 2), Val (JStr ''19.99''),
      Val (JStr ''https://example.org/burgee.png''), Val (JStr ''PHYSICAL_PRODUCT''),
      Dumps JNull, Val (JStr ''39.98''), Val (JStr ''0.00''), Val (JStr ''0.00''),
      Val (JStr ''0.00''), Val (JStr ''0.00''), Val (JStr ''39.98''), Val (JStr ''Squarespace''),
      Val JNull, Val JNull, Val (JStr ''EXCLUSIVE'')]"

definition env_ok :: env where
  "env_ok = example_env api_key (\<lambda>rq. Response 200 (Some (page [] None))) None"

definition world_with :: "row list \<Rightarrow> world" where
  "world_with rows = empty_world\<lparr>table := rows\<rparr>"

section \<open>Verified properties\<close>

lemma zero_pad2_consts:
  "zero_pad2 (Suc 0) = ''01''" "zero_pad2 12 = ''12''" "zero_pad2 30 = ''30''"
  by code_simp+

lemma date_isoformat_jan1:
  "1 \<le> y \<Longrightarrow> y \<le> 9999 \<Longrightarrow> date_isoformat y (Suc 0) (Suc 0) = Inr (zero_pad4 y @ ''-01-01'')"
  by (simp add: date_isoformat_def zero_pad2_consts)

lemma date_isoformat_dec30:
  "1 \<le> y \<Longrightarrow> y \<le> 9999 \<Longrightarrow> date_isoformat y 12 30 = Inr (zero_pad4 y @ ''-12-30'')"
  by (simp add: date_isoformat_def zero_pad2_consts)

lemma orders_json_unfold:
  assumes "1 \<le> now_year E" "now_year E \<le> 9999"
  shows "squarespace_orders_json depth E w =
     (case squarespace_items depth E (JStr orders_api_endpoint) ''result''
              (Some (year_window (now_year E))) w of
        (Inr orders, w1) \<Rightarrow>
          (Inr orders,
           if \<not> items_truthy orders
           then emit (Log WARNING ''No orders since the beginning of the year'' NoArg) w1
           else w1)
      | (Inl (HTTPError c), w1) \<Rightarrow>
          (Inl (UnboundLocalError ''orders''),
           emit (Log ERROR ''Failed to get new orders: %s'' (ErrArg (HTTPError c))) w1)
      | (Inl e, w1) \<Rightarrow> (Inl e, w1))"
  using assms
  by (simp add: squarespace_orders_json_def date_isoformat_jan1 date_isoformat_dec30
      year_window_def request_parameters_def)

lemma zero_pad4_2024: "zero_pad4 2024 = ''2024''"
  by code_simp

text \<open>
  Claim C9. When the environment has no \<^verbatim>\<open>SQUARESPACE_API_KEY\<close>, \<^verbatim>\<open>main\<close> returns 1
  at once; the only event of the run is the critical log call, so no HTTP request is made
  and the store is untouched.
\<close>

theorem main_credential_gate:
  assumes "environ E ''SQUARESPACE_API_KEY'' = None"
  shows "main depth E w =
     (Inr (RetInt 1),
      w\<lparr>trace := trace w @ [Log CRITICAL ''Failed to pass SQUARESPACE_API_KEY. Exiting'' NoArg]\<rparr>)"
  using assms by (simp add: main_def emit_def)

text \<open>
  Claim C5. When \<^verbatim>\<open>psycopg2.connect\<close> raises, \<^verbatim>\<open>insert_items\<close> returns the status
  dict with code 500 and the connection-error text as body, and the world (table, open
  transaction, events) is exactly what it was: nothing is inserted.
\<close>

theorem insert_items_connection_error:
  assumes "psycopg2_connect E (db_conn_string E) = Some msg"
  shows "insert_items E its w =
     (Inr (RetStatus 500 (Dumps (JStr (''Database connection error: '' @ msg)))), w)"
  using assms by (simp add: insert_items_def)

text \<open>
  Claim C6, evaluated on the code. When the orders were fetched and the connection to the store
  fails, \<^verbatim>\<open>insert_items\<close> returns its status 500, but \<^verbatim>\<open>main\<close> drops that value:
  \<^verbatim>\<open>handler\<close> answers with status 200 and the success text, and the events are those
  of the fetch alone, so the failure is not logged either.
\<close>

theorem handler_hides_connection_error:
  assumes "environ E ''SQUARESPACE_API_KEY'' = Some key"
    and "basicConfig E (upper (case environ E ''LOGLEVEL'' of None \<Rightarrow> ''INFO'' | Some l \<Rightarrow> l)) = None"
    and "squarespace_orders_json depth E w = (Inr orders, w1)"
    and "psycopg2_connect E (db_conn_string E) = Some msg"
  shows "insert_items E orders w1 =
           (Inr (RetStatus 500 (Dumps (JStr (''Database connection error: '' @ msg)))), w1)
       \<and> handler event ctx depth E w =
           (Inr (RetStatus 200 (Dumps (JStr ''Data inserted successfully!''))), w1)"
  using assms by (simp add: handler_def main_def insert_items_def)

text \<open>
  Claim C2, evaluated on the code. When the first page answers with a status from 400 to 599,
  \<^verbatim>\<open>raise_for_status\<close> raises \<^verbatim>\<open>HTTPError\<close>; \<^verbatim>\<open>squarespace_orders_json\<close>
  catches and logs it, and then \<^verbatim>\<open>return orders\<close> raises \<^verbatim>\<open>UnboundLocalError\<close>: the
  caller gets an exception, not an empty result.
\<close>

theorem orders_json_http_error_unbound:
  assumes "environ E ''SQUARESPACE_API_KEY'' = Some c"
    and "1 \<le> now_year E" and "now_year E \<le> 9999"
    and "requests_get E (mk_request c (JStr orders_api_endpoint) (Some (year_window (now_year E))))
           = Response status body"
    and "400 \<le> status" and "status < 600"
  shows "squarespace_orders_json (Suc d) E w =
     (Inl (UnboundLocalError ''orders''),
      w\<lparr>trace := trace w @
         [Get (mk_request c (JStr orders_api_endpoint) (Some (year_window (now_year E)))),
          Log ERROR ''Failed to get new orders: %s'' (ErrArg (HTTPError status))]\<rparr>)"
  using assms by (simp add: orders_json_unfold emit_def)

text \<open>
  An exception of \<^verbatim>\<open>requests.get\<close> itself that is not an \<^verbatim>\<open>HTTPError\<close>, such as a
  refused connection, is not handled in \<^verbatim>\<open>squarespace_orders_json\<close> and leaves it as it is.
\<close>

lemma orders_json_network_error:
  assumes "environ E ''SQUARESPACE_API_KEY'' = Some c"
    and "1 \<le> now_year E" and "now_year E \<le> 9999"
    and "requests_get E (mk_request c (JStr orders_api_endpoint) (Some (year_window (now_year E))))
           = Raises ConnectionError"
  shows "squarespace_orders_json (Suc d) E w =
     (Inl ConnectionError,
      w\<lparr>trace := trace w @
         [Get (mk_request c (JStr orders_api_endpoint) (Some (year_window (now_year E))))]\<rparr>)"
  using assms by (simp add: orders_json_unfold emit_def)

lemma first_request_eq:
  "mk_request ''secret'' (JStr orders_api_endpoint) (Some (year_window 2024)) = first_request"
  by (simp add: mk_request_def orders_api_endpoint_def year_window_def zero_pad4_2024 first_request_def)

theorem main_credential_gate_witness:
  "environ env_no_key ''SQUARESPACE_API_KEY'' = None \<and>
   main 5 env_no_key empty_world =
     (Inr (RetInt 1),
      empty_world\<lparr>trace := [Log CRITICAL ''Failed to pass SQUARESPACE_API_KEY. Exiting'' NoArg]\<rparr>)"
proof -
  have h: "environ env_no_key ''SQUARESPACE_API_KEY'' = None"
    by (simp add: env_no_key_def example_env_def)
  from main_credential_gate [OF h, of 5 empty_world] h show ?thesis
    by (simp add: empty_world_def)
qed

theorem insert_items_connection_error_witness:
  "psycopg2_connect env_db_down (db_conn_string env_db_down) = Some ''connection refused'' \<and>
   insert_items env_db_down (Items [JObj []]) empty_world =
     (Inr (RetStatus 500 (Dumps (JStr ''Database connection error: connection refused''))),
      empty_world)"
proof -
  have h: "psycopg2_connect env_db_down (db_conn_string env_db_down) = Some ''connection refused''"
    by (simp add: env_db_down_def example_env_def)
  from insert_items_connection_error [OF h, of "Items [JObj []]" empty_world] h show ?thesis
    by simp
qed

lemma upper_INFO: "upper ''INFO'' = ''INFO''"
  by code_simp

theorem orders_json_http_error_unbound_witness:
  "squarespace_orders_json 3 env_http_500 empty_world =
     (Inl (UnboundLocalError ''orders''),
      empty_world\<lparr>trace := [Get first_request,
          Log ERROR ''Failed to get new orders: %s'' (ErrArg (HTTPError 500))]\<rparr>)"
proof -
  have h1: "environ env_http_500 ''SQUARESPACE_API_KEY'' = Some ''secret''"
    by (simp add: env_http_500_def example_env_def api_key_def)
  have h2: "1 \<le> now_year env_http_500" "now_year env_http_500 \<le> 9999"
    by (simp_all add: env_http_500_def example_env_def)
  have h3: "requests_get env_http_500
      (mk_request ''secret'' (JStr orders_api_endpoint) (Some (year_window (now_year env_http_500))))
      = Response 500 None"
    by (simp add: env_http_500_def example_env_def)
  have y: "now_year env_http_500 = 2024"
    by (simp add: env_http_500_def example_env_def)
  from orders_json_http_error_unbound [OF h1 h2 h3, of 2 empty_world] show ?thesis
    by (simp add: y first_request_eq empty_world_def numeral_3_eq_3)
qed

theorem handler_hides_connection_error_witness:
  "environ env_db_down ''SQUARESPACE_API_KEY'' = Some ''secret'' \<and>
   psycopg2_connect env_db_down (db_conn_string env_db_down) = Some ''connection refused'' \<and>
   handler JNull JNull 3 env_db_down empty_world =
     (Inr (RetStatus 200 (Dumps (JStr ''Data inserted successfully!''))),
      empty_world\<lparr>trace := [Get first_request,
          Log WARNING ''No orders since the beginning of the year'' NoArg]\<rparr>)"
proof -
  let ?w1 = "empty_world\<lparr>trace := [Get first_request,
          Log WARNING ''No orders since the beginning of the year'' NoArg]\<rparr>"
  have h1: "environ env_db_down ''SQUARESPACE_API_KEY'' = Some ''secret''"
    by (simp add: env_db_down_def example_env_def api_key_def)
  have h2: "basicConfig env_db_down
      (upper (case environ env_db_down ''LOGLEVEL'' of None \<Rightarrow> ''INFO'' | Some l \<Rightarrow> l)) = None"
    by (simp add: env_db_down_def example_env_def api_key_def upper_INFO level_names_def)
  have y: "1 \<le> now_year env_db_down" "now_year env_db_down \<le> 9999" "now_year env_db_down = 2024"
    by (simp_all add: env_db_down_def example_env_def)
  have g: "requests_get env_db_down first_request = Response 200 (Some (page [] None))"
    by (simp add: env_db_down_def example_env_def)
  have h3: "squarespace_orders_json 3 env_db_down empty_world = (Inr (Items []), ?w1)"
    by (simp add: orders_json_unfold [OF y(1,2)] y(3) numeral_3_eq_3 h1 first_request_eq g page_def
        emit_def empty_world_def)
  have h4: "psycopg2_connect env_db_down (db_conn_string env_db_down) = Some ''connection refused''"
    by (simp add: env_db_down_def example_env_def)
  from handler_hides_connection_error [OF h1 h2 h3 h4, of JNull JNull] h1 h4 show ?thesis
    by simp
qed

lemma items_events:
  assumes "environ E ''SQUARESPACE_API_KEY'' = Some c"
  shows "squarespace_items depth E u k p w = (r, w') \<Longrightarrow>
    \<exists>evs. trace w' = trace w @ (if depth = 0 then [] else Get (mk_request c u p) # evs)
      \<and> followups evs"
proof (induction depth arbitrary: u p w r w')
  case 0
  then show ?case by (auto simp: followups_def intro: exI[of _ "[]"])
next
  case (Suc depth)
  have np: "params (mk_request c x None) = None" for x
    by (simp add: mk_request_def)
  show ?case
    using Suc.prems assms
    by (auto simp: Let_def emit_def followups_def np
        split: option.splits http_result.splits sum.splits prod.splits items.splits if_splits
        dest!: Suc.IH)
qed

text \<open>
  Claim C7. Whenever the credential is set (and the clock's year is one \<^verbatim>\<open>date\<close> accepts),
  the first event of \<^verbatim>\<open>squarespace_orders_json\<close> is the request to the orders endpoint with
  \<^verbatim>\<open>modifiedAfter\<close> = January 1 and \<^verbatim>\<open>modifiedBefore\<close> = December 30 of the current
  year at \<^verbatim>\<open>T00:00:00.0Z\<close>. The function has no parameter for the window, and every later
  request of the run carries no query parameters.
\<close>

theorem orders_json_year_window:
  assumes "environ E ''SQUARESPACE_API_KEY'' = Some c"
    and "1 \<le> now_year E" and "now_year E \<le> 9999"
  shows "\<exists>evs. followups evs \<and>
     trace (snd (squarespace_orders_json (Suc d) E w)) =
       trace w @ Get (mk_request c (JStr orders_api_endpoint) (Some (year_window (now_year E)))) # evs"
proof -
  obtain r w1 where run: "squarespace_items (Suc d) E (JStr orders_api_endpoint) ''result''
      (Some (year_window (now_year E))) w = (r, w1)"
    by (cases "squarespace_items (Suc d) E (JStr orders_api_endpoint) ''result''
      (Some (year_window (now_year E))) w") 
  from items_events [OF assms(1) run] obtain evs where
    evs: "followups evs"
      "trace w1 = trace w @ Get (mk_request c (JStr orders_api_endpoint)
          (Some (year_window (now_year E)))) # evs"
    by auto
  have f1: "followups (evs @ [Log l s a])" for l s a
    using evs(1) by (simp add: followups_def)
  show ?thesis
    using evs f1
    by (auto simp: orders_json_unfold [OF assms(2,3)] run emit_def
        simp del: squarespace_items.simps split: sum.splits py_error.splits)
qed

lemma page_chain_ConsD:
  assumes "page_chain E c key u p (recs # later)"
  obtains body pg b where
    "requests_get E (mk_request c u p) = Response 200 (Some body)"
    "subscript body key = Inr (JArr recs)"
    "subscript body ''pagination'' = Inr pg"
    "subscript pg ''hasNextPage'' = Inr (JBool b)"
    "if later = [] then \<not> b
     else b \<and> (\<exists>nxt. subscript pg ''nextPageUrl'' = Inr nxt \<and> page_chain E c key nxt None later)"
  using assms
  by (auto split: http_result.splits option.splits sum.splits json.splits if_splits)

lemma items_chain:
  assumes key: "environ E ''SQUARESPACE_API_KEY'' = Some c"
  shows "page_chain E c key u p pages \<Longrightarrow> length pages \<le> depth \<Longrightarrow>
     fst (squarespace_items depth E u key p w) = Inr (Items (concat pages)) \<and>
     length (trace (snd (squarespace_items depth E u key p w))) = length (trace w) + length pages"
proof (induction pages arbitrary: depth u p w)
  case Nil
  then show ?case by simp
next
  case (Cons recs later)
  from Cons.prems(2) obtain d where d: "depth = Suc d" "length later \<le> d"
    by (cases depth) auto
  from Cons.prems(1) obtain body pg b where
    resp: "requests_get E (mk_request c u p) = Response 200 (Some body)"
    and recs: "subscript body key = Inr (JArr recs)"
    and pg: "subscript body ''pagination'' = Inr pg"
    and b: "subscript pg ''hasNextPage'' = Inr (JBool b)"
    and rest: "if later = [] then \<not> b
       else b \<and> (\<exists>nxt. subscript pg ''nextPageUrl'' = Inr nxt \<and> page_chain E c key nxt None later)"
    by (rule page_chain_ConsD)
  show ?case
  proof (cases "later = []")
    case True
    with rest have "\<not> b" by simp
    then show ?thesis
      using True by (simp add: d key resp recs pg b emit_def)
  next
    case False
    with rest obtain nxt where
      nxt: "b" "subscript pg ''nextPageUrl'' = Inr nxt" "page_chain E c key nxt None later"
      by auto
    let ?w1 = "emit (Get (mk_request c u p)) w"
    obtain r w2 where run: "squarespace_items d E nxt key None ?w1 = (r, w2)"
      by (cases "squarespace_items d E nxt key None ?w1")
    from Cons.IH [OF nxt(3) d(2), of ?w1] run
    have r: "r = Inr (Items (concat later))"
      and len: "length (trace w2) = length (trace ?w1) + length later"
      by simp_all
    show ?thesis
      using run by (simp add: d key resp recs pg b nxt r len emit_def)
  qed
qed

lemma length_concat_const:
  "\<forall>recs \<in> set pages. length recs = k \<Longrightarrow> length (concat pages) = length pages * k"
  by (induction pages) auto

text \<open>
  Claim C1. For an endpoint serving \<open>N\<close> pages of \<open>k\<close> records each, with the next-page flag
  true exactly on the pages before the last and every answer a success, \<^verbatim>\<open>squarespace_items\<close>
  returns the records of all pages, page by page and in the order of each page: \<open>N * k\<close>
  records, fetched with \<open>N\<close> requests. The interpreter must allow \<open>N\<close> nested calls.
\<close>

theorem squarespace_items_pagination_complete:
  assumes "environ E ''SQUARESPACE_API_KEY'' = Some c"
    and "page_chain E c key u p pages"
    and "length pages \<le> depth"
    and "\<forall>recs \<in> set pages. length recs = k"
  shows "fst (squarespace_items depth E u key p w) = Inr (Items (concat pages))
    \<and> length (concat pages) = length pages * k
    \<and> length (trace (snd (squarespace_items depth E u key p w))) = length (trace w) + length pages"
  using items_chain [OF assms(1,2,3), of w] length_concat_const [OF assms(4)]
  by simp

theorem squarespace_items_pagination_complete_witness:
  "environ env_two_pages ''SQUARESPACE_API_KEY'' = Some ''secret''
   \<and> page_chain env_two_pages ''secret'' ''result'' (JStr orders_api_endpoint) None
        [[JNum 1, JNum 2], [JNum 3, JNum 4]]
   \<and> fst (squarespace_items 2 env_two_pages (JStr orders_api_endpoint) ''result'' None empty_world)
        = Inr (Items [JNum 1, JNum 2, JNum 3, JNum 4])
   \<and> length (trace (snd (squarespace_items 2 env_two_pages (JStr orders_api_endpoint) ''result''
        None empty_world))) = 2"
proof -
  have h1: "environ env_two_pages ''SQUARESPACE_API_KEY'' = Some ''secret''"
    by (simp add: env_two_pages_def example_env_def api_key_def)
  have h2: "page_chain env_two_pages ''secret'' ''result'' (JStr orders_api_endpoint) None
        [[JNum 1, JNum 2], [JNum 3, JNum 4]]"
    by (simp add: env_two_pages_def example_env_def two_pages_server_def page_def mk_request_def
        orders_api_endpoint_def)
  have h3: "length [[JNum 1, JNum 2], [JNum 3, JNum 4]] \<le> (2::nat)"
    by simp
  have h4: "\<forall>recs \<in> set [[JNum 1, JNum 2], [JNum 3, JNum 4]]. length recs = 2"
    by simp
  from squarespace_items_pagination_complete [OF h1 h2 h3 h4, of empty_world] h1 h2
  show ?thesis
    by (simp add: empty_world_def)
qed

theorem orders_json_year_window_witness:
  "environ env_two_pages ''SQUARESPACE_API_KEY'' = Some ''secret''
   \<and> now_year env_two_pages = 2024
   \<and> (\<exists>evs. followups evs \<and>
        trace (snd (squarespace_orders_json 3 env_two_pages empty_world)) = Get first_request # evs)"
proof -
  have h1: "environ env_two_pages ''SQUARESPACE_API_KEY'' = Some ''secret''"
    by (simp add: env_two_pages_def example_env_def api_key_def)
  have y: "now_year env_two_pages = 2024"
    by (simp add: env_two_pages_def example_env_def)
  have h2: "1 \<le> now_year env_two_pages" "now_year env_two_pages \<le> 9999"
    by (simp_all add: y)
  from orders_json_year_window [OF h1 h2, of 2 empty_world] h1 y
  show ?thesis
    by (simp add: first_request_eq empty_world_def numeral_3_eq_3)
qed

lemma sequence_map_Inr: "sequence (map Inr xs) = Inr xs"
  by (induction xs) auto

lemma sequence_InrD: "sequence cs = Inr xs \<Longrightarrow> cs = map Inr xs"
  by (induction cs arbitrary: xs rule: sequence.induct) (auto split: sum.splits)

lemma sequence_Inr_conv:
  "sequence cs = Inr xs \<longleftrightarrow> cs = map Inr xs"
  using sequence_map_Inr sequence_InrD by blast

lemma sequence_Inl:
  "Inl e \<in> set cs \<Longrightarrow> \<exists>e'. sequence cs = Inl e'"
  by (cases "sequence cs") (auto simp: sequence_Inr_conv)

lemma sequence_append_Inl:
  "sequence cs = Inr xs \<Longrightarrow> sequence (cs @ Inl e # ds) = Inl e"
  by (induction cs arbitrary: xs rule: sequence.induct) (auto split: sum.splits)

lemma sequence_error_in:
  "sequence cs = Inl e \<Longrightarrow> Inl e \<in> set cs"
  by (induction cs rule: sequence.induct) (auto split: sum.splits)

lemma length_values_front: "length (values_front payload li) = 19"
  by (simp add: values_front_def)

lemma values_of_nth:
  assumes "values_of payload li vo = Inr r"
  shows "r ! 19 = vo" and "length r = 38"
proof -
  from assms have eq: "values_front payload li @ [Inr vo] @ values_middle li
      @ [dumps1 li ''customizations''] @ values_back payload = map Inr r"
    by (simp add: values_of_def sequence_Inr_conv)
  from arg_cong [OF eq, of length] show "length r = 38"
    by (simp add: values_front_def values_middle_def values_back_def)
  then have "19 < length r" by simp
  from arg_cong [OF eq, of "\<lambda>xs. xs ! 19"] this show "r ! 19 = vo"
    by (simp add: nth_append length_values_front)
qed

lemma key_in_dict: "k \<in> set (map fst kvs) \<longleftrightarrow> map_of kvs k \<noteq> None"
  by (simp add: map_of_eq_None_iff)

lemma variant_options_dict:
  "variant_options (JObj kvs) =
     Inr (case map_of kvs ''variantOptions'' of None \<Rightarrow> Val JNull | Some v \<Rightarrow> Dumps v)"
  by (cases "map_of kvs ''variantOptions''")
     (simp_all add: variant_options_def dumps1_def key_in_dict del: set_map)

lemma skip_events_skips: "list_all is_skip (skip_events a n)"
  by (induction n arbitrary: a) (auto simp: is_skip_def)

lemma length_skip_events: "length (skip_events a n) = n"
  by (induction n arbitrary: a) auto

lemma insert_line_items_stored:
  assumes "map (line_item_row payload) lis = map Inr rows"
    and "\<forall>r \<in> set rows. row_id r \<in> set (map row_id (table w))"
  shows "insert_line_items payload lis w =
     (Inr (), w\<lparr>trace := trace w @ skip_events (aborted w) (length lis),
                aborted := aborted w \<or> lis \<noteq> []\<rparr>)"
  using assms
proof (induction lis arbitrary: rows w)
  case Nil
  then show ?case by simp
next
  case (Cons li lis)
  then obtain r rs where rows: "rows = r # rs" "line_item_row payload li = Inr r"
    "map (line_item_row payload) lis = map Inr rs"
    by (cases rows) auto
  from Cons.prems(2) rows(1) have stored: "row_id r \<in> set (map row_id (table w))"
    and rest: "\<forall>r \<in> set rs. row_id r \<in> set (map row_id (table w))"
    by simp_all
  show ?case
  proof (cases "aborted w")
    case True
    let ?w1 = "emit (Print ''Some error in the transaction: %s'' (ErrArg InFailedSqlTransaction)) w"
    have "insert_line_items payload (li # lis) w = insert_line_items payload lis ?w1"
      using True by (simp add: rows(2) execute_def)
    also have "\<dots> = (Inr (), ?w1\<lparr>trace := trace ?w1 @ skip_events (aborted ?w1) (length lis),
                aborted := aborted ?w1 \<or> lis \<noteq> []\<rparr>)"
      using rest by (intro Cons.IH [OF rows(3)]) (simp add: emit_def)
    finally show ?thesis
      using True by (simp add: emit_def)
  next
    case False
    let ?w1 = "emit (Print ''Caught duplicate lineitem, skipping: %s'' (ErrArg UniqueViolation))
                 (w\<lparr>aborted := True\<rparr>)"
    have "insert_line_items payload (li # lis) w = insert_line_items payload lis ?w1"
      using False stored by (simp add: rows(2) execute_def)
    also have "\<dots> = (Inr (), ?w1\<lparr>trace := trace ?w1 @ skip_events (aborted ?w1) (length lis),
                aborted := aborted ?w1 \<or> lis \<noteq> []\<rparr>)"
      using rest by (intro Cons.IH [OF rows(3)]) (simp add: emit_def)
    finally show ?thesis
      using False by (simp add: emit_def)
  qed
qed

lemma one_row_per_id:
  "distinct (map row_id tbl) \<Longrightarrow> r \<in> set tbl \<Longrightarrow>
     length (filter (\<lambda>x. row_id x = row_id r) tbl) = 1"
proof (induction tbl)
  case Nil
  then show ?case by simp
next
  case (Cons a tbl)
  show ?case
  proof (cases "r = a")
    case True
    from Cons.prems(1) have "row_id a \<notin> row_id ` set tbl"
      by simp
    then have "\<forall>x \<in> set tbl. row_id x \<noteq> row_id a"
      by (metis imageI)
    with True have "filter (\<lambda>x. row_id x = row_id r) tbl = []"
      by (simp add: filter_empty_conv)
    with True show ?thesis by simp
  next
    case False
    with Cons.prems have "r \<in> set tbl" "row_id a \<noteq> row_id r"
      by auto
    with Cons show ?thesis by simp
  qed
qed

lemma order_rowsD:
  assumes "order_rows payload = Inr rows"
  obtains lineItems lis where "subscript payload ''lineItems'' = Inr lineItems"
    "py_iter lineItems = Inr lis" "map (line_item_row payload) lis = map Inr rows"
  using assms by (auto simp: order_rows_def sequence_Inr_conv split: sum.splits)

text \<open>
  Claim C3. When the store already holds every row of an order, \<^verbatim>\<open>insert_items\<close> on that
  order returns 0 and leaves the table as it was: each line item is skipped with one printed
  line and nothing is written, so the table still holds exactly one row for each LineItem id
  of the order.
\<close>

theorem insert_items_idempotent:
  assumes "psycopg2_connect E (db_conn_string E) = None"
    and "order_rows payload = Inr rows"
    and "set rows \<subseteq> set (table w)"
    and "distinct (map row_id (table w))"
  shows "insert_items E (Items [payload]) w =
      (Inr (RetInt 0),
       w\<lparr>trace := trace w @ skip_events False (length rows) @ [Print ''Successful load out'' NoArg],
         pending := [], aborted := False, connected := False\<rparr>)
    \<and> (\<forall>r \<in> set rows.
          length (filter (\<lambda>x. row_id x = row_id r)
            (table (snd (insert_items E (Items [payload]) w)))) = 1)"
proof -
  from assms(2) obtain lineItems lis where
    lis: "subscript payload ''lineItems'' = Inr lineItems" "py_iter lineItems = Inr lis"
      "map (line_item_row payload) lis = map Inr rows"
    by (rule order_rowsD)
  from lis(3) have len: "length lis = length rows"
    using map_eq_imp_length_eq by blast
  let ?w0 = "w\<lparr>pending := [], aborted := False, connected := True\<rparr>"
  have stored: "\<forall>r \<in> set rows. row_id r \<in> set (map row_id (table ?w0))"
    using assms(3) by auto
  have run: "insert_items E (Items [payload]) w =
      (Inr (RetInt 0),
       w\<lparr>trace := trace w @ skip_events False (length rows) @ [Print ''Successful load out'' NoArg],
         pending := [], aborted := False, connected := False\<rparr>)"
    by (simp add: insert_items_def assms(1) lis(1,2) insert_line_items_stored [OF lis(3) stored]
        commit_def emit_def len)
  have "\<forall>r \<in> set rows. length (filter (\<lambda>x. row_id x = row_id r) (table w)) = 1"
    using assms(3,4) one_row_per_id by blast
  with run show ?thesis by simp
qed

lemma example_row_eq:
  "line_item_row (example_order lis) (example_line_item i) = Inr (example_row i)"
  by (simp add: line_item_row_def variant_options_def values_of_def values_front_def
      values_middle_def values_back_def get1_def get2_def dumps1_def example_order_def
      example_line_item_def example_fields_def example_row_def money_def)

lemma row_id_example_row: "row_id (example_row i) = Val (JStr i)"
  by (simp add: row_id_def example_row_def)

theorem insert_items_idempotent_witness:
  "psycopg2_connect env_ok (db_conn_string env_ok) = None
   \<and> order_rows (example_order [example_line_item ''li-1'', example_line_item ''li-2''])
       = Inr [example_row ''li-1'', example_row ''li-2'']
   \<and> insert_items env_ok
        (Items [example_order [example_line_item ''li-1'', example_line_item ''li-2'']])
        (world_with [example_row ''li-1'', example_row ''li-2'']) =
      (Inr (RetInt 0),
       \<lparr>trace = [Print ''Caught duplicate lineitem, skipping: %s'' (ErrArg UniqueViolation),
                 Print ''Some error in the transaction: %s'' (ErrArg InFailedSqlTransaction),
                 Print ''Successful load out'' NoArg],
        table = [example_row ''li-1'', example_row ''li-2''],
        pending = [], aborted = False, connected = False\<rparr>)"
proof -
  let ?p = "example_order [example_line_item ''li-1'', example_line_item ''li-2'']"
  let ?w = "world_with [example_row ''li-1'', example_row ''li-2'']"
  have h1: "psycopg2_connect env_ok (db_conn_string env_ok) = None"
    by (simp add: env_ok_def example_env_def)
  have lis: "subscript ?p ''lineItems''
      = Inr (JArr [example_line_item ''li-1'', example_line_item ''li-2''])"
    by (simp add: example_order_def)
  have h2: "order_rows ?p = Inr [example_row ''li-1'', example_row ''li-2'']"
    by (simp add: order_rows_def lis example_row_eq)
  have h3: "set [example_row ''li-1'', example_row ''li-2''] \<subseteq> set (table ?w)"
    by (simp add: world_with_def)
  have h4: "distinct (map row_id (table ?w))"
    by (simp add: world_with_def row_id_example_row)
  from insert_items_idempotent [OF h1 h2 h3 h4] h1 h2 show ?thesis
    by (simp add: world_with_def empty_world_def numeral_2_eq_2)
qed

text \<open>
  Claim C4, evaluated on the code. An order with two line items, the first new and the second
  already stored: the first insert succeeds, the second raises \<^verbatim>\<open>UniqueViolation\<close>, which
  is caught and aborts the transaction, and the commit that follows rolls the transaction back.
  The row of the first line item is not in the table afterwards.
\<close>

theorem insert_items_duplicate_rolls_back_order:
  assumes "psycopg2_connect E (db_conn_string E) = None"
    and "subscript payload ''lineItems'' = Inr (JArr [li1, li2])"
    and "line_item_row payload li1 = Inr r1"
    and "line_item_row payload li2 = Inr r2"
    and "row_id r1 \<notin> set (map row_id (table w))"
    and "row_id r2 \<in> set (map row_id (table w))"
  shows "insert_items E (Items [payload]) w =
      (Inr (RetInt 0),
       w\<lparr>trace := trace w @
            [Print ''Caught duplicate lineitem, skipping: %s'' (ErrArg UniqueViolation),
             Print ''Successful load out'' NoArg],
         pending := [], aborted := False, connected := False\<rparr>)
    \<and> r1 \<notin> set (table (snd (insert_items E (Items [payload]) w)))"
proof -
  have run: "insert_items E (Items [payload]) w =
      (Inr (RetInt 0),
       w\<lparr>trace := trace w @
            [Print ''Caught duplicate lineitem, skipping: %s'' (ErrArg UniqueViolation),
             Print ''Successful load out'' NoArg],
         pending := [], aborted := False, connected := False\<rparr>)"
    using assms by (simp add: insert_items_def execute_def commit_def emit_def)
  from assms(5) have "r1 \<notin> set (table w)"
    by auto
  with run show ?thesis by simp
qed

text \<open>
  In the other order the new line item comes after the stored one: its insert raises
  \<^verbatim>\<open>InFailedSqlTransaction\<close>, so it does not succeed, and the table is unchanged as well.
\<close>

lemma insert_items_duplicate_first:
  assumes "psycopg2_connect E (db_conn_string E) = None"
    and "subscript payload ''lineItems'' = Inr (JArr [li2, li1])"
    and "line_item_row payload li1 = Inr r1"
    and "line_item_row payload li2 = Inr r2"
    and "row_id r2 \<in> set (map row_id (table w))"
  shows "insert_items E (Items [payload]) w =
      (Inr (RetInt 0),
       w\<lparr>trace := trace w @
            [Print ''Caught duplicate lineitem, skipping: %s'' (ErrArg UniqueViolation),
             Print ''Some error in the transaction: %s'' (ErrArg InFailedSqlTransaction),
             Print ''Successful load out'' NoArg],
         pending := [], aborted := False, connected := False\<rparr>)"
  using assms by (simp add: insert_items_def execute_def commit_def emit_def)

theorem insert_items_duplicate_rolls_back_order_witness:
  "psycopg2_connect env_ok (db_conn_string env_ok) = None
   \<and> row_id (example_row ''li-1'') \<notin> set (map row_id (table (world_with [example_row ''li-2''])))
   \<and> row_id (example_row ''li-2'') \<in> set (map row_id (table (world_with [example_row ''li-2''])))
   \<and> insert_items env_ok
        (Items [example_order [example_line_item ''li-1'', example_line_item ''li-2'']])
        (world_with [example_row ''li-2'']) =
      (Inr (RetInt 0),
       \<lparr>trace = [Print ''Caught duplicate lineitem, skipping: %s'' (ErrArg UniqueViolation),
                 Print ''Successful load out'' NoArg],
        table = [example_row ''li-2''],
        pending = [], aborted = False, connected = False\<rparr>)"
proof -
  let ?p = "example_order [example_line_item ''li-1'', example_line_item ''li-2'']"
  let ?w = "world_with [example_row ''li-2'']"
  have h1: "psycopg2_connect env_ok (db_conn_string env_ok) = None"
    by (simp add: env_ok_def example_env_def)
  have h2: "subscript ?p ''lineItems''
      = Inr (JArr [example_line_item ''li-1'', example_line_item ''li-2''])"
    by (simp add: example_order_def)
  have h5: "row_id (example_row ''li-1'') \<notin> set (map row_id (table ?w))"
    by (simp add: world_with_def row_id_example_row)
  have h6: "row_id (example_row ''li-2'') \<in> set (map row_id (table ?w))"
    by (simp add: world_with_def row_id_example_row)
  from insert_items_duplicate_rolls_back_order [OF h1 h2 example_row_eq example_row_eq h5 h6]
    h1 h5 h6
  show ?thesis
    by (simp add: world_with_def empty_world_def)
qed

text \<open>
  Claim C8. For a line item without \<^verbatim>\<open>variantOptions\<close> the value of the column is
  \<^verbatim>\<open>None\<close>, and for one with the field it is \<^verbatim>\<open>json.dumps\<close> of the field; computing
  it never fails on a dict. When the other fields of the row are present and its id is new,
  \<^verbatim>\<open>insert_items\<close> stores the row, with that value as its column 20 (index 19), and
  returns 0.
\<close>

theorem variant_options_absent_marker:
  assumes "psycopg2_connect E (db_conn_string E) = None"
    and "subscript payload ''lineItems'' = Inr (JArr [JObj kvs])"
    and "vo = (case map_of kvs ''variantOptions'' of None \<Rightarrow> Val JNull | Some v \<Rightarrow> Dumps v)"
    and "values_of payload (JObj kvs) vo = Inr r"
    and "row_id r \<notin> set (map row_id (table w))"
  shows "variant_options (JObj kvs) = Inr vo
    \<and> r ! 19 = vo
    \<and> insert_items E (Items [payload]) w =
        (Inr (RetInt 0),
         w\<lparr>trace := trace w @ [Print ''Successful load out'' NoArg], table := table w @ [r],
           pending := [], aborted := False, connected := False\<rparr>)"
proof -
  have vo: "variant_options (JObj kvs) = Inr vo"
    by (simp add: variant_options_dict assms(3))
  then have row: "line_item_row payload (JObj kvs) = Inr r"
    by (simp add: line_item_row_def assms(4))
  have "insert_items E (Items [payload]) w =
        (Inr (RetInt 0),
         w\<lparr>trace := trace w @ [Print ''Successful load out'' NoArg], table := table w @ [r],
           pending := [], aborted := False, connected := False\<rparr>)"
    using assms(1,2,5) row by (simp add: insert_items_def execute_def commit_def emit_def)
  with vo values_of_nth(1) [OF assms(4)] show ?thesis
    by simp
qed

theorem variant_options_absent_marker_witness:
  "psycopg2_connect env_ok (db_conn_string env_ok) = None
   \<and> map_of (example_fields ''li-1'' @ [(''customizations'', JNull)]) ''variantOptions'' = None
   \<and> variant_options (example_line_item ''li-1'') = Inr (Val JNull)
   \<and> example_row ''li-1'' ! 19 = Val JNull
   \<and> insert_items env_ok (Items [example_order [example_line_item ''li-1'']]) empty_world =
        (Inr (RetInt 0),
         \<lparr>trace = [Print ''Successful load out'' NoArg], table = [example_row ''li-1''],
          pending = [], aborted = False, connected = False\<rparr>)"
proof -
  let ?kvs = "example_fields ''li-1'' @ [(''customizations'', JNull)]"
  let ?p = "example_order [example_line_item ''li-1'']"
  have h1: "psycopg2_connect env_ok (db_conn_string env_ok) = None"
    by (simp add: env_ok_def example_env_def)
  have h2: "subscript ?p ''lineItems'' = Inr (JArr [JObj ?kvs])"
    by (simp add: example_order_def example_line_item_def)
  have none: "map_of ?kvs ''variantOptions'' = None"
    by (simp add: example_fields_def)
  have h3: "Val JNull = (case map_of ?kvs ''variantOptions'' of None \<Rightarrow> Val JNull
      | Some v \<Rightarrow> Dumps v)"
    unfolding none by simp
  have vo: "variant_options (JObj ?kvs) = Inr (Val JNull)"
    unfolding variant_options_dict none by simp
  have h4: "values_of ?p (JObj ?kvs) (Val JNull) = Inr (example_row ''li-1'')"
    using example_row_eq [of "[example_line_item ''li-1'']" "''li-1''"]
    by (simp add: line_item_row_def example_line_item_def vo)
  have h5: "row_id (example_row ''li-1'') \<notin> set (map row_id (table empty_world))"
    by (simp add: empty_world_def)
  from variant_options_absent_marker [OF h1 h2 h3 h4 h5] h1 none show ?thesis
    by (simp add: example_line_item_def empty_world_def)
qed

lemma sequence_append:
  "sequence (cs @ ds) =
     (case sequence cs of
        Inl e \<Rightarrow> Inl e
      | Inr xs \<Rightarrow> (case sequence ds of Inl e \<Rightarrow> Inl e | Inr ys \<Rightarrow> Inr (xs @ ys)))"
  by (induction cs rule: sequence.induct) (auto split: sum.splits)

lemma lookup_outcome_get1: "lookup_outcome (get1 x k)"
  by (cases x) (auto simp: lookup_outcome_def key_or_type_error_def get1_def split: option.splits)

lemma lookup_outcome_get2: "lookup_outcome (get2 x k1 k2)"
  using lookup_outcome_get1 [of _ k2]
  by (cases x) (auto simp: lookup_outcome_def key_or_type_error_def get2_def split: option.splits)

lemma sequence_error_kind:
  "list_all lookup_outcome cs \<Longrightarrow> sequence cs = Inl e \<Longrightarrow> key_or_type_error e"
  by (induction cs rule: sequence.induct) (auto simp: lookup_outcome_def split: sum.splits)

lemma values_before_customizations_kind:
  "list_all lookup_outcome (values_front payload li @ [Inr vo] @ values_middle li)"
  by (simp add: values_front_def values_middle_def lookup_outcome_get1 lookup_outcome_get2)
     (simp add: lookup_outcome_def)

lemma values_of_missing_customizations:
  assumes "map_of kvs ''customizations'' = None"
  shows "values_of payload (JObj kvs) vo =
     Inl (case sequence (values_front payload (JObj kvs) @ [Inr vo] @ values_middle (JObj kvs)) of
            Inl e \<Rightarrow> e
          | Inr pre \<Rightarrow> KeyError ''customizations'')"
proof -
  have "values_of payload (JObj kvs) vo =
      sequence ((values_front payload (JObj kvs) @ [Inr vo] @ values_middle (JObj kvs))
        @ ([dumps1 (JObj kvs) ''customizations''] @ values_back payload))"
    by (simp add: values_of_def)
  also have "\<dots> = Inl (case sequence (values_front payload (JObj kvs) @ [Inr vo]
        @ values_middle (JObj kvs)) of Inl e \<Rightarrow> e | Inr pre \<Rightarrow> KeyError ''customizations'')"
    unfolding sequence_append [of "values_front payload (JObj kvs) @ [Inr vo] @ values_middle (JObj kvs)"]
    by (simp add: dumps1_def assms split: sum.splits)
  finally show ?thesis .
qed

lemma execute_keeps:
  "execute r w = (x, w') \<Longrightarrow> table w' = table w \<and> connected w' = connected w"
  by (auto simp: execute_def split: if_splits)

lemma insert_line_items_keeps:
  "insert_line_items payload lis w = (x, w') \<Longrightarrow>
     table w' = table w \<and> connected w' = connected w"
proof (induction lis arbitrary: w)
  case Nil
  then show ?case by simp
next
  case (Cons li lis)
  show ?case
    using Cons.prems
    by (auto simp: emit_def split: sum.splits prod.splits py_error.splits
        dest!: Cons.IH execute_keeps)
qed

lemma insert_payloads_connected:
  "insert_payloads ps w = (x, w') \<Longrightarrow> connected w' = connected w"
proof (induction ps arbitrary: w)
  case Nil
  then show ?case by simp
next
  case (Cons p ps)
  show ?case
    using Cons.prems
    by (auto simp: commit_def split: sum.splits prod.splits if_splits
        dest!: Cons.IH insert_line_items_keeps)
qed

lemma insert_line_items_append:
  "insert_line_items payload (xs @ ys) w =
     (case insert_line_items payload xs w of
        (Inl e, w') \<Rightarrow> (Inl e, w')
      | (Inr u, w') \<Rightarrow> insert_line_items payload ys w')"
  by (induction xs arbitrary: w) (auto split: sum.splits prod.splits py_error.splits)

lemma insert_payloads_append:
  "insert_payloads (ps @ qs) w =
     (case insert_payloads ps w of
        (Inl e, w') \<Rightarrow> (Inl e, w')
      | (Inr u, w') \<Rightarrow> insert_payloads qs w')"
  by (induction ps arbitrary: w) (auto split: sum.splits prod.splits)

text \<open>
  Claim C10. A line item that is a dict without the key \<^verbatim>\<open>customizations\<close>, reached after
  the orders \<open>earlier\<close> and the line items \<open>before\<close> of its own order went through:
  \<^verbatim>\<open>insert_items\<close> ends with an exception that no handler catches. It is
  \<^verbatim>\<open>KeyError('customizations')\<close> when the fields read before it are present, and the
  \<^verbatim>\<open>KeyError\<close> or \<^verbatim>\<open>TypeError\<close> of the first of them that fails otherwise. The
  line items \<open>after\<close> it and the orders \<open>later\<close> are never processed, the rows of the
  current order are not committed, and the connection is still open.
\<close>

theorem insert_items_missing_customizations:
  assumes "psycopg2_connect E (db_conn_string E) = None"
    and "insert_payloads earlier (w\<lparr>pending := [], aborted := False, connected := True\<rparr>)
           = (Inr (), w1)"
    and "subscript payload ''lineItems'' = Inr lineItems"
    and "py_iter lineItems = Inr (before @ JObj kvs # after)"
    and "insert_line_items payload before w1 = (Inr (), w2)"
    and "map_of kvs ''customizations'' = None"
    and "vo = (case map_of kvs ''variantOptions'' of None \<Rightarrow> Val JNull | Some v \<Rightarrow> Dumps v)"
    and "e = (case sequence (values_front payload (JObj kvs) @ [Inr vo] @ values_middle (JObj kvs)) of
                Inl e' \<Rightarrow> e'
              | Inr pre \<Rightarrow> KeyError ''customizations'')"
  shows "insert_items E (Items (earlier @ payload # later)) w = (Inl e, w2)
    \<and> key_or_type_error e \<and> connected w2 \<and> table w2 = table w1"
proof -
  have row: "line_item_row payload (JObj kvs) = Inl e"
    by (simp add: line_item_row_def variant_options_dict assms(7) [symmetric]
        values_of_missing_customizations [OF assms(6)] assms(8))
  have kind: "key_or_type_error e"
  proof (cases "sequence (values_front payload (JObj kvs) @ [Inr vo] @ values_middle (JObj kvs))")
    case (Inl e')
    with sequence_error_kind [OF values_before_customizations_kind Inl] assms(8)
    show ?thesis by simp
  next
    case (Inr pre)
    with assms(8) show ?thesis by (simp add: key_or_type_error_def)
  qed
  have items: "insert_line_items payload (before @ JObj kvs # after) w1 = (Inl e, w2)"
    by (simp add: insert_line_items_append assms(5) row)
  have order: "insert_payloads (payload # later) w1 = (Inl e, w2)"
    by (simp add: assms(3,4) items del: insert_line_items.simps)
  have "insert_payloads (earlier @ payload # later)
      (w\<lparr>pending := [], aborted := False, connected := True\<rparr>) = (Inl e, w2)"
    by (simp add: insert_payloads_append assms(2) order del: insert_payloads.simps)
  then have run: "insert_items E (Items (earlier @ payload # later)) w = (Inl e, w2)"
    by (simp add: insert_items_def assms(1) del: insert_payloads.simps)
  from insert_payloads_connected [OF assms(2)] have "connected w1"
    by simp
  with insert_line_items_keeps [OF assms(5)] have "connected w2" "table w2 = table w1"
    by simp_all
  with run kind show ?thesis by simp
qed

theorem insert_items_missing_customizations_witness:
  "psycopg2_connect env_ok (db_conn_string env_ok) = None
   \<and> map_of (example_fields ''li-2'') ''customizations'' = None
   \<and> insert_items env_ok
        (Items [example_order [example_line_item ''li-1'', bare_line_item ''li-2''],
                example_order [example_line_item ''li-3'']])
        empty_world =
       (Inl (KeyError ''customizations''),
        \<lparr>trace = [], table = [], pending = [example_row ''li-1''], aborted = False,
         connected = True\<rparr>)"
proof -
  let ?p = "example_order [example_line_item ''li-1'', bare_line_item ''li-2'']"
  let ?w0 = "empty_world\<lparr>pending := [], aborted := False, connected := True\<rparr>"
  let ?w2 = "\<lparr>trace = [], table = [], pending = [example_row ''li-1''], aborted = False,
         connected = True\<rparr>"
  have h1: "psycopg2_connect env_ok (db_conn_string env_ok) = None"
    by (simp add: env_ok_def example_env_def)
  have h2: "insert_payloads [] ?w0 = (Inr (), ?w0)"
    by simp
  have h3: "subscript ?p ''lineItems''
      = Inr (JArr [example_line_item ''li-1'', bare_line_item ''li-2''])"
    by (simp add: example_order_def)
  have h4: "py_iter (JArr [example_line_item ''li-1'', bare_line_item ''li-2''])
      = Inr ([example_line_item ''li-1''] @ JObj (example_fields ''li-2'') # [])"
    by (simp add: bare_line_item_def)
  have h5: "insert_line_items ?p [example_line_item ''li-1''] ?w0 = (Inr (), ?w2)"
    by (simp add: example_row_eq execute_def empty_world_def)
  have h6: "map_of (example_fields ''li-2'') ''customizations'' = None"
    by (simp add: example_fields_def)
  have h7: "Val JNull = (case map_of (example_fields ''li-2'') ''variantOptions'' of
      None \<Rightarrow> Val JNull | Some v \<Rightarrow> Dumps v)"
    by (simp add: example_fields_def)
  have h8: "KeyError ''customizations'' =
      (case sequence (values_front ?p (JObj (example_fields ''li-2'')) @ [Inr (Val JNull)]
          @ values_middle (JObj (example_fields ''li-2''))) of
         Inl e' \<Rightarrow> e'
       | Inr pre \<Rightarrow> KeyError ''customizations'')"
    by (simp add: values_front_def values_middle_def get1_def get2_def example_order_def
        example_fields_def money_def)
  from insert_items_missing_customizations [OF h1 h2 h3 h4 h5 h6 h7 h8,
      of "[example_order [example_line_item ''li-3'']]"] h1 h6
  show ?thesis
    by simp
qed

end
